theory Spec2Isabelle
  imports Complex_Main "HOL-Library.Sublist"
begin

section \<open>The fish identifier of \<^verbatim>\<open>src/components/FishIdentifier.tsx\<close>\<close>

text \<open>
  The component classifies an uploaded image with an external model and post-processes
  the ranked labels with string heuristics. The embedding follows the source function by
  function. JavaScript strings are modelled as HOL strings, \<^verbatim>\<open>undefined\<close> as
  \<open>None\<close>, the React state as a record that every handler takes and returns, and the
  two awaited calls of the classifier as an outcome that the handler receives.
\<close>

subsection \<open>The string operations of the JavaScript library that the source calls\<close>

text \<open>
  \<^verbatim>\<open>String.prototype.toLowerCase\<close>, on the characters of a HOL string: each of the
  letters \<open>A\<close> to \<open>Z\<close> is replaced by its small letter, every other character is
  kept. A HOL character is a byte, and this is what the JavaScript function does on a
  string of ASCII characters. On other characters the JavaScript function follows the
  Unicode tables, which are not part of this model; what is proved about the lower-cased
  label is therefore stated for labels of ASCII characters.
\<close>

definition toLowerChar :: "char \<Rightarrow> char" where
  "toLowerChar c =
     (case map_of (zip ''ABCDEFGHIJKLMNOPQRSTUVWXYZ'' ''abcdefghijklmnopqrstuvwxyz'') c of
        Some d \<Rightarrow> d
      | None \<Rightarrow> c)"

definition toLowerCase :: "string \<Rightarrow> string" where
  "toLowerCase s = map toLowerChar s"

text \<open>
  \<^verbatim>\<open>s.includes(t)\<close>: some position of \<open>s\<close> starts with \<open>t\<close>. The search runs over
  the positions of \<open>s\<close> from the left; the empty string is found everywhere.
\<close>

fun str_includes :: "string \<Rightarrow> string \<Rightarrow> bool" where
  "str_includes [] t = (t = [])"
| "str_includes (c # cs) t = (prefix t (c # cs) \<or> str_includes cs t)"

text \<open>\<^verbatim>\<open>s.startsWith(t)\<close>.\<close>

definition startsWith :: "string \<Rightarrow> string \<Rightarrow> bool" where
  "startsWith s t = prefix t s"

text \<open>
  \<^verbatim>\<open>s.split(sep)\<close> for a separator of one character: the string is cut at every
  occurrence of the separator, so two separators in a row and a separator at either end
  give empty pieces, and a string without separator (the empty string too) gives the
  one-element array holding it. The last case of the inner \<open>case\<close> is never taken
  (the result is never empty); it is written out to keep the function defined everywhere.
\<close>

fun js_split :: "char \<Rightarrow> string \<Rightarrow> string list" where
  "js_split sep [] = [[]]"
| "js_split sep (c # cs) =
     (if c = sep then [] # js_split sep cs
      else (case js_split sep cs of
              w # ws \<Rightarrow> (c # w) # ws
            | [] \<Rightarrow> [[c]]))"

text \<open>
  \<^verbatim>\<open>xs[i]\<close>: reading an array beyond its end does not throw in JavaScript, it
  gives \<^verbatim>\<open>undefined\<close>.
\<close>

definition js_index :: "'a list \<Rightarrow> nat \<Rightarrow> 'a option" where
  "js_index xs i = (if i < length xs then Some (xs ! i) else None)"

text \<open>
  A value interpolated into a template literal: \<^verbatim>\<open>undefined\<close> is printed as the
  text \<^verbatim>\<open>undefined\<close>.
\<close>

definition interpolate :: "string option \<Rightarrow> string" where
  "interpolate v = (case v of None \<Rightarrow> ''undefined'' | Some s \<Rightarrow> s)"

text \<open>\<^verbatim>\<open>xs.slice(start, end)\<close> for indices that are not negative.\<close>

definition slice :: "'a list \<Rightarrow> nat \<Rightarrow> nat \<Rightarrow> 'a list" where
  "slice xs start end' = take (end' - start) (drop start xs)"

text \<open>\<^verbatim>\<open>xs.every(p)\<close>.\<close>

primrec every :: "('a \<Rightarrow> bool) \<Rightarrow> 'a list \<Rightarrow> bool" where
  "every p [] = True"
| "every p (x # xs) = (p x \<and> every p xs)"

text \<open>
  The truth value of an optional string, as \<^verbatim>\<open>!v\<close> and \<^verbatim>\<open>v && ...\<close> read it:
  \<^verbatim>\<open>undefined\<close>, \<^verbatim>\<open>null\<close> and the empty string are falsy.
\<close>

definition truthy :: "string option \<Rightarrow> bool" where
  "truthy v = (case v of None \<Rightarrow> False | Some s \<Rightarrow> s \<noteq> [])"

subsection \<open>Data\<close>

text \<open>
  An item of the classifier's answer (read at lines 74, 86 and 87 as \<^verbatim>\<open>item.label\<close>
  and \<^verbatim>\<open>item.score\<close>), and the interface \<^verbatim>\<open>IdentificationResult\<close>, which has the
  same two fields and three optional ones. A score is a JavaScript number. The interpreter
  only copies it; the badge only compares it with the literals 0.7 and 0.4. It is modelled
  as the real number it is written as, and each literal as that decimal: a score equal to
  a literal is then not greater than it, as the same two numbers compare in the source.
\<close>

record ClassificationEntry =
  label :: string
  score :: real

record IdentificationResult = ClassificationEntry +
  species :: "string option"
  genus :: "string option"
  commonName :: "string option"

subsection \<open>The interpretation of the classifier's answer (lines 73 to 116)\<close>

definition extractSpecies :: "string \<Rightarrow> string" where
  "extractSpecies l =
     (let words = js_split (CHR '' '') l in
      if length words \<ge> 2
      then interpolate (js_index words 0) @ '' '' @ interpolate (js_index words 1)
      else l)"

definition extractGenus :: "string \<Rightarrow> string option" where
  "extractGenus l = js_index (js_split (CHR '' '') l) 0"

definition isFishRelated :: "string \<Rightarrow> bool" where
  "isFishRelated itemLabel =
     (let l = toLowerCase itemLabel in
      str_includes l ''fish'' \<or>
      str_includes l ''salmon'' \<or>
      str_includes l ''tuna'' \<or>
      str_includes l ''bass'' \<or>
      str_includes l ''shark'' \<or>
      str_includes l ''trout'' \<or>
      str_includes l ''cod'' \<or>
      str_includes l ''marine'' \<or>
      str_includes l ''aquatic'')"

text \<open>The function passed to \<^verbatim>\<open>map\<close> at line 73.\<close>

definition processItem :: "ClassificationEntry \<Rightarrow> IdentificationResult" where
  "processItem item =
     \<lparr> label = label item,
       score = score item,
       species = (if isFishRelated (label item) then Some (extractSpecies (label item)) else None),
       genus = (if isFishRelated (label item) then extractGenus (label item) else None),
       commonName = (if isFishRelated (label item) then Some (label item) else None) \<rparr>"

definition processedResults :: "ClassificationEntry list \<Rightarrow> IdentificationResult list" where
  "processedResults result = map processItem (slice result 0 5)"

text \<open>The test of line 96, which decides whether the information toast is shown.\<close>

definition noFishDetected :: "IdentificationResult list \<Rightarrow> bool" where
  "noFishDetected rs = every (\<lambda>r. \<not> truthy (species r)) rs"

subsection \<open>The confidence badge (lines 235 to 241)\<close>

text \<open>
  The class of the badge is chosen by two strict comparisons of the score: the green
  badge, or else the yellow one, or else the red one.
\<close>

definition confidenceBadge :: "IdentificationResult \<Rightarrow> string" where
  "confidenceBadge result =
     (if score result > 0.7
      then ''bg-green-100 text-green-800 dark:bg-green-900 dark:text-green-200''
      else if score result > 0.4
      then ''bg-yellow-100 text-yellow-800 dark:bg-yellow-900 dark:text-yellow-200''
      else ''bg-red-100 text-red-800 dark:bg-red-900 dark:text-red-200'')"

text \<open>
  The specification names three confidence tiers. The high tier is shown with the green
  badge, the medium tier with the yellow one and the low tier with the red one.
\<close>

datatype tier = High | Medium | Low

definition tierClass :: "tier \<Rightarrow> string" where
  "tierClass t =
     (case t of
        High \<Rightarrow> ''bg-green-100 text-green-800 dark:bg-green-900 dark:text-green-200''
      | Medium \<Rightarrow> ''bg-yellow-100 text-yellow-800 dark:bg-yellow-900 dark:text-yellow-200''
      | Low \<Rightarrow> ''bg-red-100 text-red-800 dark:bg-red-900 dark:text-red-200'')"

subsection \<open>The state of the component and its handlers\<close>

text \<open>
  The state holds the four \<^verbatim>\<open>useState\<close> cells of lines 21 to 24 and, to make the
  effects of the handlers visible, the notifications shown so far (\<^verbatim>\<open>toast.error\<close>,
  \<^verbatim>\<open>toast.info\<close>), the messages written with \<^verbatim>\<open>console.error\<close>, the files handed
  to a \<^verbatim>\<open>FileReader\<close>, and how often the pipeline was created and the classifier was
  called.
\<close>

datatype toast = ToastError string | ToastInfo string

record File =
  file_type :: string

record State =
  image :: "string option"
  isLoading :: bool
  results :: "IdentificationResult list"
  isDragOver :: bool
  toasts :: "toast list"
  consoleErrors :: "string list"
  reading :: "File list"
  pipelineCalls :: nat
  classifierCalls :: nat

text \<open>The initial values of the four cells (lines 21 to 24); nothing has happened yet.\<close>

definition initialState :: State where
  "initialState =
     \<lparr> image = None, isLoading = False, results = [], isDragOver = False,
       toasts = [], consoleErrors = [], reading = [], pipelineCalls = 0, classifierCalls = 0 \<rparr>"

text \<open>Lines 27 to 39. The file is read asynchronously; \<open>reader_onload\<close> is the callback.\<close>

definition handleImageUpload :: "File \<Rightarrow> State \<Rightarrow> State" where
  "handleImageUpload file st =
     (if \<not> startsWith (file_type file) ''image/''
      then st\<lparr>toasts := toasts st @ [ToastError ''Please upload a valid image file'']\<rparr>
      else st\<lparr>reading := reading st @ [file]\<rparr>)"

definition reader_onload :: "string option \<Rightarrow> State \<Rightarrow> State" where
  "reader_onload res st = st\<lparr>image := res, results := []\<rparr>"

text \<open>Lines 41 to 55; the argument is the list of files of the event.\<close>

definition handleDrop :: "File list \<Rightarrow> State \<Rightarrow> State" where
  "handleDrop files st =
     (let st1 = st\<lparr>isDragOver := False\<rparr> in
      case js_index files 0 of
        Some file \<Rightarrow> handleImageUpload file st1
      | None \<Rightarrow> st1)"

definition handleFileSelect :: "File list \<Rightarrow> State \<Rightarrow> State" where
  "handleFileSelect files st =
     (case js_index files 0 of
        Some file \<Rightarrow> handleImageUpload file st
      | None \<Rightarrow> st)"

text \<open>
  Lines 57 to 105. The two awaited calls belong to the external library; what they do is
  the argument of the handler: the creation of the pipeline is rejected, or the pipeline
  is created and the call of the classifier is rejected, or the classifier answers with a
  list of entries. \<open>catch_block\<close> is the body of the \<^verbatim>\<open>catch\<close> clause, and the last
  update of \<open>identifyFish\<close> is the \<^verbatim>\<open>finally\<close> clause.
\<close>

datatype outcome =
    PipelineRejected
  | ClassifierRejected
  | Resolved "ClassificationEntry list"

definition catch_block :: "State \<Rightarrow> State" where
  "catch_block st =
     st\<lparr>consoleErrors := consoleErrors st @ [''Error identifying fish:''],
        toasts := toasts st @ [ToastError ''Failed to identify fish. Please try again.'']\<rparr>"

definition try_block :: "outcome \<Rightarrow> State \<Rightarrow> State" where
  "try_block oc st =
     (case oc of
        PipelineRejected \<Rightarrow> catch_block (st\<lparr>pipelineCalls := pipelineCalls st + 1\<rparr>)
      | ClassifierRejected \<Rightarrow>
          catch_block (st\<lparr>pipelineCalls := pipelineCalls st + 1,
                          classifierCalls := classifierCalls st + 1\<rparr>)
      | Resolved result \<Rightarrow>
          (let st1 = st\<lparr>pipelineCalls := pipelineCalls st + 1,
                         classifierCalls := classifierCalls st + 1\<rparr>;
               st2 = st1\<lparr>results := processedResults result\<rparr>
           in if noFishDetected (processedResults result)
              then st2\<lparr>toasts := toasts st2 @
                     [ToastInfo ''This might not be a fish image. The AI couldn't detect any fish species.'']\<rparr>
              else st2))"

definition identifyFish :: "outcome \<Rightarrow> State \<Rightarrow> State" where
  "identifyFish oc st =
     (if \<not> truthy (image st) then st
      else (try_block oc (st\<lparr>isLoading := True\<rparr>))\<lparr>isLoading := False\<rparr>)"

subsection \<open>Whitespace-delimited tokens, in the words of the specification\<close>

text \<open>
  The specification words the derived fields with the whitespace-delimited tokens of a
  label. These definitions follow its words, for comparison with \<open>extractGenus\<close> and
  \<open>extractSpecies\<close>: a token is a maximal run of characters that are not whitespace, so
  the tokens are the pieces between whitespace characters that are not empty.
\<close>

definition isWhitespace :: "char \<Rightarrow> bool" where
  "isWhitespace c = (c \<in> set [CHR '' '', CHR 0x09, CHR 0x0A, CHR 0x0B, CHR 0x0C, CHR 0x0D])"

fun split_on :: "(char \<Rightarrow> bool) \<Rightarrow> string \<Rightarrow> string list" where
  "split_on p [] = [[]]"
| "split_on p (c # cs) =
     (if p c then [] # split_on p cs
      else (case split_on p cs of
              w # ws \<Rightarrow> (c # w) # ws
            | [] \<Rightarrow> [[c]]))"

definition spec_tokens :: "string \<Rightarrow> string list" where
  "spec_tokens s = filter (\<lambda>w. w \<noteq> []) (split_on isWhitespace s)"

definition spec_genus :: "string \<Rightarrow> string option" where
  "spec_genus l = js_index (spec_tokens l) 0"

definition spec_species :: "string \<Rightarrow> string" where
  "spec_species l =
     (case spec_tokens l of
        w0 # w1 # _ \<Rightarrow> w0 @ '' '' @ w1
      | _ \<Rightarrow> l)"

text \<open>
  A label whose only whitespace is single spaces between its tokens: every whitespace
  character is a space, and no piece between two spaces, before the first or after the
  last one is empty.
\<close>

definition single_spaced :: "string \<Rightarrow> bool" where
  "single_spaced l =
     (list_all (\<lambda>c. isWhitespace c \<longrightarrow> c = CHR '' '') l \<and> [] \<notin> set (js_split (CHR '' '') l))"

subsection \<open>The lower-cased label, in the words of the specification\<close>

text \<open>
  The specification words the relevance test with the lower-cased label. For comparison
  with \<open>toLowerCase\<close>, lower-casing is written here by the codes of the characters,
  as the Unicode tables give it for ASCII text: a capital letter, code 65 to 90, becomes
  the letter whose code is 32 higher, and every other character stays. A character is
  ASCII when its code is below 128.
\<close>

definition isAscii :: "char \<Rightarrow> bool" where
  "isAscii c = ((of_char c :: nat) < 128)"

definition lowerCased :: "string \<Rightarrow> string" where
  "lowerCased s =
     map (\<lambda>c. if 65 \<le> (of_char c :: nat) \<and> (of_char c :: nat) \<le> 90
              then char_of ((of_char c :: nat) + 32) else c) s"

section \<open>Properties\<close>

subsection \<open>The string operations\<close>

text \<open>\<open>str_includes\<close> decides plain containment: \<open>t\<close> occurs in \<open>s\<close> between some prefix and some suffix.\<close>

lemma str_includes_sublist: "str_includes s t \<longleftrightarrow> sublist t s"
  by (induction s) (auto simp: sublist_Cons_right)

text \<open>
  \<open>toLowerCase\<close> is the lower-casing by character codes; the 256 characters are
  checked one by one.
\<close>

lemma toLowerChar_code:
  "toLowerChar c =
     (if 65 \<le> (of_char c :: nat) \<and> (of_char c :: nat) \<le> 90
      then char_of ((of_char c :: nat) + 32) else c)"
proof -
  have "\<forall>c. toLowerChar c =
     (if 65 \<le> (of_char c :: nat) \<and> (of_char c :: nat) \<le> 90
      then char_of ((of_char c :: nat) + 32) else c)"
    by code_simp
  then show ?thesis by (rule spec)
qed

lemma toLowerCase_lowerCased: "toLowerCase s = lowerCased s"
  by (simp add: toLowerCase_def lowerCased_def toLowerChar_code)

lemma slice_0: "slice xs 0 n = take n xs"
  by (simp add: slice_def)

lemma every_iff: "every p xs \<longleftrightarrow> (\<forall>x \<in> set xs. p x)"
  by (induction xs) auto

text \<open>The array that \<open>js_split\<close> returns: never empty, one piece more than separators.\<close>

lemma js_split_not_Nil: "js_split sep s \<noteq> []"
  by (induction s) (auto split: list.splits)

lemma js_split_length: "length (js_split sep s) = Suc (length (filter (\<lambda>c. c = sep) s))"
  by (induction s) (auto split: list.splits simp: js_split_not_Nil)

lemma js_split_two: "2 \<le> length (js_split sep s) \<longleftrightarrow> sep \<in> set s"
proof -
  have "filter (\<lambda>c. c = sep) s \<noteq> [] \<longleftrightarrow> sep \<in> set s"
    by (auto simp: filter_empty_conv)
  then show ?thesis
    by (cases "filter (\<lambda>c. c = sep) s") (simp_all add: js_split_length)
qed

lemma js_split_unfold:
  "js_split sep s =
     takeWhile (\<lambda>c. c \<noteq> sep) s #
     (case dropWhile (\<lambda>c. c \<noteq> sep) s of [] \<Rightarrow> [] | _ # rest \<Rightarrow> js_split sep rest)"
  by (induction s) (auto split: list.splits)

lemma js_split_first: "js_split sep s ! 0 = takeWhile (\<lambda>c. c \<noteq> sep) s"
  by (subst js_split_unfold) simp

lemma js_split_second:
  "sep \<in> set s \<Longrightarrow>
   js_split sep s ! Suc 0 = takeWhile (\<lambda>c. c \<noteq> sep) (tl (dropWhile (\<lambda>c. c \<noteq> sep) s))"
proof (induction s)
  case Nil
  then show ?case by simp
next
  case (Cons c cs)
  show ?case
  proof (cases "c = sep")
    case True
    then show ?thesis using js_split_first [of sep cs] by simp
  next
    case False
    with Cons.prems have "sep \<in> set cs" by simp
    then have ih: "js_split sep cs ! Suc 0 =
        takeWhile (\<lambda>c. c \<noteq> sep) (tl (dropWhile (\<lambda>c. c \<noteq> sep) cs))"
      by (rule Cons.IH)
    obtain w ws where w: "js_split sep cs = w # ws"
      using js_split_not_Nil [of sep cs] by (cases "js_split sep cs") auto
    with False ih show ?thesis by simp
  qed
qed

text \<open>No piece holds the separator, and the pieces joined by it give the string back.\<close>

lemma js_split_pieces: "w \<in> set (js_split sep s) \<Longrightarrow> sep \<notin> set w"
  by (induction s arbitrary: w) (auto split: list.splits if_splits)

lemma js_split_join:
  "concat (js_split sep s ! 0 # map (\<lambda>w. sep # w) (tl (js_split sep s))) = s"
  by (induction s) (auto split: list.splits simp: js_split_not_Nil)

lemma js_split_split_on: "js_split sep s = split_on (\<lambda>c. c = sep) s"
  by (induction s) auto

lemma split_on_cong: "(\<And>c. c \<in> set s \<Longrightarrow> p c = q c) \<Longrightarrow> split_on p s = split_on q s"
  by (induction s) auto

subsection \<open>The derived fields\<close>

lemma extractGenus_eq: "extractGenus l = Some (takeWhile (\<lambda>c. c \<noteq> CHR '' '') l)"
  using js_split_first [of "CHR '' ''" l]
  by (simp add: extractGenus_def js_index_def js_split_not_Nil)

lemma extractSpecies_eq:
  "extractSpecies l =
     (if CHR '' '' \<in> set l
      then takeWhile (\<lambda>c. c \<noteq> CHR '' '') l @ '' '' @
           takeWhile (\<lambda>c. c \<noteq> CHR '' '') (tl (dropWhile (\<lambda>c. c \<noteq> CHR '' '') l))
      else l)"
proof (cases "CHR '' '' \<in> set l")
  case True
  then have len: "2 \<le> length (js_split (CHR '' '') l)" by (simp add: js_split_two)
  then have "extractSpecies l = js_split (CHR '' '') l ! 0 @ '' '' @ js_split (CHR '' '') l ! 1"
    by (simp add: extractSpecies_def Let_def js_index_def interpolate_def js_split_not_Nil)
  with True show ?thesis by (simp add: js_split_first js_split_second)
next
  case False
  then have "\<not> 2 \<le> length (js_split (CHR '' '') l)" by (simp add: js_split_two)
  with False show ?thesis by (simp add: extractSpecies_def Let_def)
qed

lemma extractSpecies_not_Nil: "l \<noteq> [] \<Longrightarrow> extractSpecies l \<noteq> []"
  by (simp add: extractSpecies_eq)

lemma single_spaced_tokens:
  assumes "single_spaced l"
  shows "spec_tokens l = js_split (CHR '' '') l"
proof -
  from assms have ws: "\<And>c. c \<in> set l \<Longrightarrow> isWhitespace c = (c = CHR '' '')"
    by (auto simp: single_spaced_def list_all_iff isWhitespace_def)
  have "split_on isWhitespace l = split_on (\<lambda>c. c = CHR '' '') l"
    by (rule split_on_cong) (rule ws)
  then have "split_on isWhitespace l = js_split (CHR '' '') l"
    by (simp add: js_split_split_on)
  moreover from assms have "filter (\<lambda>w. w \<noteq> []) (js_split (CHR '' '') l) = js_split (CHR '' '') l"
    by (auto simp: single_spaced_def filter_id_conv)
  ultimately show ?thesis by (simp add: spec_tokens_def)
qed

lemma single_spaced_genus: "single_spaced l \<Longrightarrow> extractGenus l = spec_genus l"
  by (simp add: single_spaced_tokens spec_genus_def extractGenus_def)

lemma single_spaced_species:
  assumes "single_spaced l"
  shows "extractSpecies l = spec_species l"
proof (cases "js_split (CHR '' '') l")
  case Nil
  then show ?thesis by (simp add: js_split_not_Nil)
next
  case (Cons w0 ws)
  then show ?thesis using assms
    by (cases ws)
      (simp_all add: single_spaced_tokens spec_species_def extractSpecies_def Let_def
        js_index_def interpolate_def)
qed

lemma isFishRelated_not_Nil: "isFishRelated l \<Longrightarrow> l \<noteq> []"
  by (auto simp: isFishRelated_def toLowerCase_def)

subsection \<open>The records of the interpreter\<close>

lemma label_processItem: "label (processItem e) = label e"
  by (simp add: processItem_def)

lemma score_processItem: "score (processItem e) = score e"
  by (simp add: processItem_def)

lemma species_processItem:
  "species (processItem e) =
     (if isFishRelated (label e) then Some (extractSpecies (label e)) else None)"
  by (simp add: processItem_def)

lemma genus_processItem:
  "genus (processItem e) = (if isFishRelated (label e) then extractGenus (label e) else None)"
  by (simp add: processItem_def)

lemma commonName_processItem:
  "commonName (processItem e) = (if isFishRelated (label e) then Some (label e) else None)"
  by (simp add: processItem_def)

lemma processedResults_take: "processedResults es = map processItem (take 5 es)"
  by (simp add: processedResults_def slice_0)

lemma truthy_species: "truthy (species (processItem e)) \<longleftrightarrow> species (processItem e) \<noteq> None"
  by (simp add: species_processItem truthy_def extractSpecies_not_Nil isFishRelated_not_Nil)

section \<open>The claims\<close>

subsection \<open>The relevance test and the presence of the derived fields\<close>

text \<open>
  C1. For a label of ASCII characters, \<open>toLowerCase\<close> gives the lower-cased label, with
  every capital letter folded to its small letter, and the entry is judged fish-relevant
  exactly when that lower-cased label contains one of the nine keywords fish, salmon,
  tuna, bass, shark, trout, cod, marine, aquatic, where containing is plain containment
  between some prefix and some suffix (\<open>sublist\<close>), with no token boundary. In the
  record made from an entry each of \<open>species\<close>, \<open>genus\<close> and \<open>commonName\<close> is
  present exactly when the entry is judged fish-relevant, and so in the whole output: the
  records that have all three fields are those of the relevant entries, the records that
  have none are those of the others.
\<close>

theorem relevance_predicate:
  "(list_all isAscii (label e) \<longrightarrow>
      toLowerCase (label e) = lowerCased (label e) \<and>
      (isFishRelated (label e) \<longleftrightarrow>
         sublist ''fish'' (lowerCased (label e)) \<or>
         sublist ''salmon'' (lowerCased (label e)) \<or>
         sublist ''tuna'' (lowerCased (label e)) \<or>
         sublist ''bass'' (lowerCased (label e)) \<or>
         sublist ''shark'' (lowerCased (label e)) \<or>
         sublist ''trout'' (lowerCased (label e)) \<or>
         sublist ''cod'' (lowerCased (label e)) \<or>
         sublist ''marine'' (lowerCased (label e)) \<or>
         sublist ''aquatic'' (lowerCased (label e)))) \<and>
   (species (processItem e) \<noteq> None \<longleftrightarrow> isFishRelated (label e)) \<and>
   (genus (processItem e) \<noteq> None \<longleftrightarrow> isFishRelated (label e)) \<and>
   (commonName (processItem e) \<noteq> None \<longleftrightarrow> isFishRelated (label e)) \<and>
   map (\<lambda>r. species r \<noteq> None \<and> genus r \<noteq> None \<and> commonName r \<noteq> None) (processedResults es) =
     map (\<lambda>e. isFishRelated (label e)) (slice es 0 5) \<and>
   map (\<lambda>r. species r = None \<and> genus r = None \<and> commonName r = None) (processedResults es) =
     map (\<lambda>e. \<not> isFishRelated (label e)) (slice es 0 5)"
proof -
  have a: "isFishRelated (label e) \<longleftrightarrow>
         sublist ''fish'' (lowerCased (label e)) \<or>
         sublist ''salmon'' (lowerCased (label e)) \<or>
         sublist ''tuna'' (lowerCased (label e)) \<or>
         sublist ''bass'' (lowerCased (label e)) \<or>
         sublist ''shark'' (lowerCased (label e)) \<or>
         sublist ''trout'' (lowerCased (label e)) \<or>
         sublist ''cod'' (lowerCased (label e)) \<or>
         sublist ''marine'' (lowerCased (label e)) \<or>
         sublist ''aquatic'' (lowerCased (label e))"
    unfolding isFishRelated_def Let_def str_includes_sublist toLowerCase_lowerCased ..
  have l: "toLowerCase (label e) = lowerCased (label e)"
    by (rule toLowerCase_lowerCased)
  have g: "genus (processItem x) \<noteq> None \<longleftrightarrow> isFishRelated (label x)" for x
    by (simp add: genus_processItem extractGenus_eq)
  have s: "species (processItem x) \<noteq> None \<longleftrightarrow> isFishRelated (label x)" for x
    by (simp add: species_processItem)
  have c: "commonName (processItem x) \<noteq> None \<longleftrightarrow> isFishRelated (label x)" for x
    by (simp add: commonName_processItem)
  have p: "(species (processItem x) \<noteq> None \<and> genus (processItem x) \<noteq> None \<and>
      commonName (processItem x) \<noteq> None) = isFishRelated (label x)" for x
    using g s c by blast
  have n: "(species (processItem x) = None \<and> genus (processItem x) = None \<and>
      commonName (processItem x) = None) = (\<not> isFishRelated (label x))" for x
    using g s c by blast
  have m1: "map (\<lambda>r. species r \<noteq> None \<and> genus r \<noteq> None \<and> commonName r \<noteq> None) (processedResults es) =
     map (\<lambda>e. isFishRelated (label e)) (slice es 0 5)"
    by (simp only: processedResults_def map_map o_def p)
  have m2: "map (\<lambda>r. species r = None \<and> genus r = None \<and> commonName r = None) (processedResults es) =
     map (\<lambda>e. \<not> isFishRelated (label e)) (slice es 0 5)"
    by (simp only: processedResults_def map_map o_def n)
  from a l g s c m1 m2 show ?thesis by blast
qed

text \<open>
  The label \<open>Bluefin TUNA Steak\<close> is lower-cased to \<open>bluefin tuna steak\<close> and judged
  relevant by its capital \<open>TUNA\<close>; \<open>catfishery\<close> contains \<open>fish\<close> inside a word
  and is judged relevant; \<open>Beach Towel\<close> is lower-cased to \<open>beach towel\<close>,
  contains no keyword, and its record has no genus.
\<close>

theorem relevance_predicate_witness:
  "list_all isAscii ''Bluefin TUNA Steak'' \<and>
   lowerCased ''Bluefin TUNA Steak'' = ''bluefin tuna steak'' \<and>
   toLowerCase ''Bluefin TUNA Steak'' = ''bluefin tuna steak'' \<and>
   isFishRelated ''Bluefin TUNA Steak'' \<and>
   species (processItem \<lparr>label = ''Bluefin TUNA Steak'', score = 0.8\<rparr>) \<noteq> None \<and>
   list_all isAscii ''catfishery'' \<and>
   isFishRelated ''catfishery'' \<and>
   sublist ''fish'' (lowerCased ''catfishery'') \<and>
   species (processItem \<lparr>label = ''catfishery'', score = 0.5\<rparr>) \<noteq> None \<and>
   list_all isAscii ''Beach Towel'' \<and>
   lowerCased ''Beach Towel'' = ''beach towel'' \<and>
   \<not> isFishRelated ''Beach Towel'' \<and>
   genus (processItem \<lparr>label = ''Beach Towel'', score = 0.05\<rparr>) = None"
proof -
  have asc: "list_all isAscii ''Bluefin TUNA Steak''" "list_all isAscii ''catfishery''"
    "list_all isAscii ''Beach Towel''"
    by (simp_all add: isAscii_def)
  have low: "lowerCased ''Bluefin TUNA Steak'' = ''bluefin tuna steak''"
    "lowerCased ''catfishery'' = ''catfishery''"
    "lowerCased ''Beach Towel'' = ''beach towel''"
    by code_simp+
  have sub: "sublist ''tuna'' ''bluefin tuna steak''" "sublist ''fish'' ''catfishery''"
    by (simp_all add: sublist_code)
  have nsub: "\<not> sublist ''fish'' ''beach towel''" "\<not> sublist ''salmon'' ''beach towel''"
    "\<not> sublist ''tuna'' ''beach towel''" "\<not> sublist ''bass'' ''beach towel''"
    "\<not> sublist ''shark'' ''beach towel''" "\<not> sublist ''trout'' ''beach towel''"
    "\<not> sublist ''cod'' ''beach towel''" "\<not> sublist ''marine'' ''beach towel''"
    "\<not> sublist ''aquatic'' ''beach towel''"
    by (simp_all add: sublist_code)
  from asc low sub nsub
    relevance_predicate [of "\<lparr>label = ''Bluefin TUNA Steak'', score = 0.8\<rparr>" "[]"]
    relevance_predicate [of "\<lparr>label = ''catfishery'', score = 0.5\<rparr>" "[]"]
    relevance_predicate [of "\<lparr>label = ''Beach Towel'', score = 0.05\<rparr>" "[]"]
  show ?thesis by auto
qed

subsection \<open>Order, labels and scores\<close>

text \<open>
  C3. The output has the length of the truncated input, its labels and its scores are the
  labels and the scores of the truncated input in the same order, and the record at each
  index carries the label and the score of the input entry at that index.
\<close>

theorem order_preserved:
  "length (processedResults es) = length (slice es 0 5) \<and>
   map label (processedResults es) = map label (slice es 0 5) \<and>
   map score (processedResults es) = map score (slice es 0 5) \<and>
   (\<forall>i < length (processedResults es).
      i < length es \<and>
      label (processedResults es ! i) = label (es ! i) \<and>
      score (processedResults es ! i) = score (es ! i))"
  by (simp add: processedResults_def slice_0 label_processItem score_processItem)

theorem order_preserved_witness:
  "(0::nat) < length (processedResults [\<lparr>label = ''tiger shark'', score = 0.92\<rparr>, \<lparr>label = ''beach towel'', score = 0.05\<rparr>]) \<and>
   label (processedResults [\<lparr>label = ''tiger shark'', score = 0.92\<rparr>, \<lparr>label = ''beach towel'', score = 0.05\<rparr>] ! 1) = ''beach towel'' \<and>
   score (processedResults [\<lparr>label = ''tiger shark'', score = 0.92\<rparr>, \<lparr>label = ''beach towel'', score = 0.05\<rparr>] ! 1) = 0.05"
  using order_preserved [of "[\<lparr>label = ''tiger shark'', score = 0.92\<rparr>, \<lparr>label = ''beach towel'', score = 0.05\<rparr>]"]
  by (simp add: slice_0)

subsection \<open>Truncation\<close>

text \<open>
  C4, as the claim states it, asks for an output of length \<open>min n k\<close> for a limit
  \<open>k\<close> that the caller chooses. The source has no such parameter: line 73 slices at the
  constant 5. With five entries the output has five records, where the claim with a limit
  of 2 asks for two.
\<close>

theorem topK_counterexample:
  "length (processedResults
     [\<lparr>label = ''a'', score = 0.5\<rparr>, \<lparr>label = ''b'', score = 0.2\<rparr>, \<lparr>label = ''c'', score = 0.1\<rparr>,
      \<lparr>label = ''d'', score = 0.1\<rparr>, \<lparr>label = ''e'', score = 0.1\<rparr>]) = 5 \<and>
   min (length
     [\<lparr>label = ''a'', score = 0.5\<rparr>, \<lparr>label = ''b'', score = 0.2\<rparr>, \<lparr>label = ''c'', score = 0.1\<rparr>,
      \<lparr>label = ''d'', score = 0.1\<rparr>, \<lparr>label = ''e'', score = (0.1::real)\<rparr>]) 2 = (2::nat)"
  by (simp add: processedResults_take)

text \<open>
  C4, amended. The interpreter keeps the first five entries and nothing else, before any
  other processing: the output has length \<open>min n 5\<close>, it is made from the first five
  entries one by one, entries after the fifth do not change it, and two inputs that agree
  on their first five entries give the same output.
\<close>

theorem truncation_five:
  "length (processedResults es) = min (length es) 5 \<and>
   processedResults es = map processItem (take 5 es) \<and>
   (5 \<le> length es \<longrightarrow> processedResults (es @ rest) = processedResults es) \<and>
   (take 5 es' = take 5 es \<longrightarrow> processedResults es' = processedResults es)"
  by (simp add: processedResults_take)

theorem truncation_five_witness:
  "length (processedResults
     [\<lparr>label = ''a'', score = 0.5\<rparr>, \<lparr>label = ''b'', score = 0.2\<rparr>, \<lparr>label = ''c'', score = 0.1\<rparr>,
      \<lparr>label = ''d'', score = 0.1\<rparr>, \<lparr>label = ''e'', score = 0.1\<rparr>, \<lparr>label = ''cod'', score = 0.1\<rparr>]) = 5 \<and>
   processedResults
     [\<lparr>label = ''a'', score = 0.5\<rparr>, \<lparr>label = ''b'', score = 0.2\<rparr>, \<lparr>label = ''c'', score = 0.1\<rparr>,
      \<lparr>label = ''d'', score = 0.1\<rparr>, \<lparr>label = ''e'', score = 0.1\<rparr>, \<lparr>label = ''tuna'', score = 0.1\<rparr>] =
   processedResults
     [\<lparr>label = ''a'', score = 0.5\<rparr>, \<lparr>label = ''b'', score = 0.2\<rparr>, \<lparr>label = ''c'', score = 0.1\<rparr>,
      \<lparr>label = ''d'', score = 0.1\<rparr>, \<lparr>label = ''e'', score = 0.1\<rparr>, \<lparr>label = ''cod'', score = 0.1\<rparr>]"
  using truncation_five [of
     "[\<lparr>label = ''a'', score = 0.5\<rparr>, \<lparr>label = ''b'', score = 0.2\<rparr>, \<lparr>label = ''c'', score = 0.1\<rparr>,
      \<lparr>label = ''d'', score = 0.1\<rparr>, \<lparr>label = ''e'', score = 0.1\<rparr>, \<lparr>label = ''cod'', score = 0.1\<rparr>]"
     "[\<lparr>label = ''x'', score = 0\<rparr>]"
     "[\<lparr>label = ''a'', score = 0.5\<rparr>, \<lparr>label = ''b'', score = 0.2\<rparr>, \<lparr>label = ''c'', score = 0.1\<rparr>,
      \<lparr>label = ''d'', score = 0.1\<rparr>, \<lparr>label = ''e'', score = 0.1\<rparr>, \<lparr>label = ''tuna'', score = 0.1\<rparr>]"]
  by simp

subsection \<open>Running the interpreter on its own output\<close>

text \<open>
  C9. The labels and scores of the output records, taken as a fresh input, give the same
  output again, so the same records are judged fish-relevant in the second run as in the
  first.
\<close>

theorem relevance_idempotent:
  "processedResults (map (\<lambda>r. \<lparr>label = label r, score = score r\<rparr>) (processedResults es)) =
     processedResults es \<and>
   map (\<lambda>r. isFishRelated (label r))
     (processedResults (map (\<lambda>r. \<lparr>label = label r, score = score r\<rparr>) (processedResults es))) =
   map (\<lambda>r. isFishRelated (label r)) (processedResults es)"
proof -
  have "(\<lambda>r. \<lparr>label = label r, score = score r\<rparr>) \<circ> processItem = (\<lambda>e. e)"
    by (rule ext) (simp add: label_processItem score_processItem)
  then have "map (\<lambda>r. \<lparr>label = label r, score = score r\<rparr>) (processedResults es) = take 5 es"
    by (simp add: processedResults_take)
  then show ?thesis by (simp add: processedResults_take)
qed

subsection \<open>Genus, species and common name\<close>

text \<open>
  C2, as the claim states it, takes the genus and the species from the whitespace-delimited
  tokens of the label. The source splits at the space character only, and at every single
  one. A label with a tab between its two words is judged relevant and has the first
  token \<open>tiger\<close>, but its genus is the whole label; a label with two spaces between
  its words has the first two tokens \<open>tiger\<close> and \<open>shark\<close>, but its species is
  \<open>tiger\<close> followed by a space, the second piece being empty.
\<close>

theorem whitespace_tokens_counterexample:
  "isFishRelated (''tiger'' @ [CHR 0x09] @ ''shark'') \<and>
   spec_genus (''tiger'' @ [CHR 0x09] @ ''shark'') = Some ''tiger'' \<and>
   genus (processItem \<lparr>label = ''tiger'' @ [CHR 0x09] @ ''shark'', score = 0.92\<rparr>) =
     Some (''tiger'' @ [CHR 0x09] @ ''shark'') \<and>
   isFishRelated ''tiger  shark'' \<and>
   spec_species ''tiger  shark'' = ''tiger shark'' \<and>
   species (processItem \<lparr>label = ''tiger  shark'', score = 0.92\<rparr>) = Some ''tiger ''"
  by (simp add: isFishRelated_def toLowerCase_def toLowerChar_def spec_genus_def spec_species_def
      spec_tokens_def isWhitespace_def js_index_def processItem_def extractGenus_def
      extractSpecies_def interpolate_def)

text \<open>
  C2, amended. For an entry judged fish-relevant the genus is the part of the original
  label before its first space (the whole label when it has no space); the species is that
  part, one space and the part between the first and the second space (up to the end when
  there is no second space) when the label has a space, and the full label otherwise; the
  common name is the original label. Where every whitespace character of the label is a
  single space between two tokens, these are the first whitespace-delimited token and the
  first two tokens joined by a space, as the specification words them.
\<close>

theorem derived_fields:
  assumes "isFishRelated (label e)"
  shows "genus (processItem e) = Some (takeWhile (\<lambda>c. c \<noteq> CHR '' '') (label e)) \<and>
     species (processItem e) =
       Some (if CHR '' '' \<in> set (label e)
             then takeWhile (\<lambda>c. c \<noteq> CHR '' '') (label e) @ '' '' @
                  takeWhile (\<lambda>c. c \<noteq> CHR '' '') (tl (dropWhile (\<lambda>c. c \<noteq> CHR '' '') (label e)))
             else label e) \<and>
     commonName (processItem e) = Some (label e) \<and>
     (single_spaced (label e) \<longrightarrow>
        genus (processItem e) = spec_genus (label e) \<and>
        species (processItem e) = Some (spec_species (label e)))"
proof -
  from assms have g: "genus (processItem e) = extractGenus (label e)"
    by (simp add: genus_processItem)
  from assms have s: "species (processItem e) = Some (extractSpecies (label e))"
    by (simp add: species_processItem)
  from assms have c: "commonName (processItem e) = Some (label e)"
    by (simp add: commonName_processItem)
  have sp: "single_spaced (label e) \<longrightarrow>
        genus (processItem e) = spec_genus (label e) \<and>
        species (processItem e) = Some (spec_species (label e))"
    by (simp add: g s single_spaced_genus single_spaced_species)
  from g s c sp show ?thesis
    by (simp only: extractGenus_eq extractSpecies_eq)
qed

text \<open>
  The label \<open>tiger shark\<close> gives the genus \<open>tiger\<close> and the species
  \<open>tiger shark\<close>; the single token \<open>cod\<close> gives \<open>cod\<close> for both.
\<close>

theorem derived_fields_witness:
  "isFishRelated ''tiger shark'' \<and> single_spaced ''tiger shark'' \<and>
   genus (processItem \<lparr>label = ''tiger shark'', score = 0.92\<rparr>) = Some ''tiger'' \<and>
   species (processItem \<lparr>label = ''tiger shark'', score = 0.92\<rparr>) = Some ''tiger shark'' \<and>
   commonName (processItem \<lparr>label = ''tiger shark'', score = 0.92\<rparr>) = Some ''tiger shark'' \<and>
   spec_genus ''tiger shark'' = Some ''tiger'' \<and>
   spec_species ''tiger shark'' = ''tiger shark'' \<and>
   isFishRelated ''cod'' \<and>
   genus (processItem \<lparr>label = ''cod'', score = 0.6\<rparr>) = Some ''cod'' \<and>
   species (processItem \<lparr>label = ''cod'', score = 0.6\<rparr>) = Some ''cod''"
proof -
  have 1: "isFishRelated ''tiger shark''" "isFishRelated ''cod''"
    by (simp_all add: isFishRelated_def toLowerCase_def toLowerChar_def)
  have 2: "single_spaced ''tiger shark''"
    by (simp add: single_spaced_def isWhitespace_def)
  have 3: "spec_genus ''tiger shark'' = Some ''tiger''" "spec_species ''tiger shark'' = ''tiger shark''"
    by (simp_all add: spec_genus_def spec_species_def spec_tokens_def isWhitespace_def js_index_def)
  from 1 2 3
    derived_fields [of "\<lparr>label = ''tiger shark'', score = 0.92\<rparr>"]
    derived_fields [of "\<lparr>label = ''cod'', score = 0.6\<rparr>"]
  show ?thesis by simp
qed

subsection \<open>The signal that no fish was detected\<close>

text \<open>
  C5. The test of line 96 holds on the output exactly when the species of every output
  record is absent (a species that is present is never the empty string, which the test
  would take for absent). The empty input gives the empty output, on which the test
  holds. When the classifier has answered, \<open>identifyFish\<close> stores the output and shows
  the information toast exactly in that case.
\<close>

theorem aggregate_signal:
  "(noFishDetected (processedResults es) \<longleftrightarrow> (\<forall>r \<in> set (processedResults es). species r = None)) \<and>
   processedResults [] = [] \<and>
   noFishDetected (processedResults []) \<and>
   (truthy (image st) \<longrightarrow>
      results (identifyFish (Resolved es) st) = processedResults es \<and>
      toasts (identifyFish (Resolved es) st) =
        toasts st @
        (if \<forall>r \<in> set (processedResults es). species r = None
         then [ToastInfo ''This might not be a fish image. The AI couldn't detect any fish species.'']
         else []))"
proof -
  have a: "noFishDetected (processedResults es) \<longleftrightarrow> (\<forall>r \<in> set (processedResults es). species r = None)"
    by (auto simp: noFishDetected_def every_iff processedResults_def truthy_species)
  have b: "processedResults [] = []"
    by (simp add: processedResults_take)
  have c: "noFishDetected (processedResults [])"
    by (simp add: b noFishDetected_def)
  have d: "results (identifyFish (Resolved es) st) = processedResults es" if "truthy (image st)"
    using that by (simp add: identifyFish_def try_block_def Let_def)
  have e: "toasts (identifyFish (Resolved es) st) =
        toasts st @
        (if noFishDetected (processedResults es)
         then [ToastInfo ''This might not be a fish image. The AI couldn't detect any fish species.'']
         else [])" if "truthy (image st)"
    using that by (simp add: identifyFish_def try_block_def Let_def)
  from a b c d e show ?thesis by simp
qed

text \<open>
  With the one entry \<open>umbrella\<close> the toast is shown; with \<open>tiger shark\<close> and
  \<open>beach towel\<close> it is not.
\<close>

theorem aggregate_signal_witness:
  "truthy (image (reader_onload (Some ''data:image/png;base64,iVBORw0KGgo='') initialState)) \<and>
   noFishDetected (processedResults [\<lparr>label = ''umbrella'', score = 0.99\<rparr>]) \<and>
   toasts (identifyFish (Resolved [\<lparr>label = ''umbrella'', score = 0.99\<rparr>])
     (reader_onload (Some ''data:image/png;base64,iVBORw0KGgo='') initialState)) =
     [ToastInfo ''This might not be a fish image. The AI couldn't detect any fish species.''] \<and>
   \<not> noFishDetected (processedResults
     [\<lparr>label = ''tiger shark'', score = 0.92\<rparr>, \<lparr>label = ''beach towel'', score = 0.05\<rparr>]) \<and>
   toasts (identifyFish (Resolved
     [\<lparr>label = ''tiger shark'', score = 0.92\<rparr>, \<lparr>label = ''beach towel'', score = 0.05\<rparr>])
     (reader_onload (Some ''data:image/png;base64,iVBORw0KGgo='') initialState)) = []"
proof -
  have t: "truthy (image (reader_onload (Some ''data:image/png;base64,iVBORw0KGgo='') initialState))"
    by (simp add: truthy_def reader_onload_def initialState_def)
  have s1: "species (processItem \<lparr>label = ''umbrella'', score = 0.99\<rparr>) = None"
    by (simp add: processItem_def isFishRelated_def toLowerCase_def toLowerChar_def)
  have s2: "species (processItem \<lparr>label = ''tiger shark'', score = 0.92\<rparr>) \<noteq> None"
    by (simp add: processItem_def isFishRelated_def toLowerCase_def toLowerChar_def)
  have i: "toasts (reader_onload (Some ''data:image/png;base64,iVBORw0KGgo='') initialState) = []"
    by (simp add: reader_onload_def initialState_def)
  from t s1 s2 i
    aggregate_signal [of "[\<lparr>label = ''umbrella'', score = 0.99\<rparr>]"
      "reader_onload (Some ''data:image/png;base64,iVBORw0KGgo='') initialState"]
    aggregate_signal [of "[\<lparr>label = ''tiger shark'', score = 0.92\<rparr>, \<lparr>label = ''beach towel'', score = 0.05\<rparr>]"
      "reader_onload (Some ''data:image/png;base64,iVBORw0KGgo='') initialState"]
  show ?thesis by (simp add: processedResults_take)
qed

subsection \<open>Totality of the interpreter\<close>

text \<open>
  C6. The functions of the interpreter are defined by terminating recursion over the
  label and the list of entries, and none of them has a failing branch. The two reads of
  the array of pieces are always within its bounds, so neither \<open>extractGenus\<close> nor
  \<open>extractSpecies\<close> ever sees \<^verbatim>\<open>undefined\<close>: the first piece always exists, and the
  second one is read only when there are two. A label of a single token is its own
  genus and species. Every input, the empty one too, has an output, of \<open>min n 5\<close>
  records, each with all three derived fields or none; and when the classifier has
  answered, \<open>identifyFish\<close> stores that output and logs no error.
\<close>

theorem interpreter_total:
  "js_index (js_split (CHR '' '') l) 0 \<noteq> None \<and>
   (2 \<le> length (js_split (CHR '' '') l) \<longrightarrow> js_index (js_split (CHR '' '') l) 1 \<noteq> None) \<and>
   extractGenus l \<noteq> None \<and>
   (CHR '' '' \<notin> set l \<longrightarrow> extractGenus l = Some l \<and> extractSpecies l = l) \<and>
   length (processedResults es) = min (length es) 5 \<and>
   processedResults [] = [] \<and>
   (\<forall>r \<in> set (processedResults es).
      (species r = None \<and> genus r = None \<and> commonName r = None) \<or>
      (species r \<noteq> None \<and> genus r \<noteq> None \<and> commonName r \<noteq> None)) \<and>
   (truthy (image st) \<longrightarrow>
      consoleErrors (identifyFish (Resolved es) st) = consoleErrors st \<and>
      results (identifyFish (Resolved es) st) = processedResults es)"
proof -
  have 1: "js_index (js_split (CHR '' '') l) 0 \<noteq> None"
    by (simp add: js_index_def js_split_not_Nil)
  have 2: "2 \<le> length (js_split (CHR '' '') l) \<longrightarrow> js_index (js_split (CHR '' '') l) 1 \<noteq> None"
    by (simp add: js_index_def)
  have 3: "extractGenus l \<noteq> None"
    by (simp add: extractGenus_eq)
  have 4: "CHR '' '' \<notin> set l \<longrightarrow> extractGenus l = Some l \<and> extractSpecies l = l"
    by (auto simp: extractGenus_eq extractSpecies_eq)
  have 5: "length (processedResults es) = min (length es) 5" "processedResults [] = []"
    by (simp_all add: processedResults_take)
  have 6: "\<forall>r \<in> set (processedResults es).
      (species r = None \<and> genus r = None \<and> commonName r = None) \<or>
      (species r \<noteq> None \<and> genus r \<noteq> None \<and> commonName r \<noteq> None)"
    by (simp add: processedResults_take species_processItem genus_processItem
        commonName_processItem extractGenus_eq)
  have 7: "truthy (image st) \<longrightarrow>
      consoleErrors (identifyFish (Resolved es) st) = consoleErrors st \<and>
      results (identifyFish (Resolved es) st) = processedResults es"
    by (simp add: identifyFish_def try_block_def Let_def)
  from 1 2 3 4 5 6 7 show ?thesis by blast
qed

theorem interpreter_total_witness:
  "length (js_split (CHR '' '') ''tiger shark'') = 2 \<and>
   js_index (js_split (CHR '' '') ''tiger shark'') 1 = Some ''shark'' \<and>
   extractGenus ''cod'' = Some ''cod'' \<and> extractSpecies ''cod'' = ''cod'' \<and>
   processedResults [\<lparr>label = ''cod'', score = 0.6\<rparr>] =
     [\<lparr>label = ''cod'', score = 0.6, species = Some ''cod'', genus = Some ''cod'',
       commonName = Some ''cod''\<rparr>] \<and>
   consoleErrors (identifyFish (Resolved [\<lparr>label = ''cod'', score = 0.6\<rparr>])
     (reader_onload (Some ''data:image/png;base64,iVBORw0KGgo='') initialState)) = []"
proof -
  have t: "truthy (image (reader_onload (Some ''data:image/png;base64,iVBORw0KGgo='') initialState))"
    by (simp add: truthy_def reader_onload_def initialState_def)
  have c: "consoleErrors (reader_onload (Some ''data:image/png;base64,iVBORw0KGgo='') initialState) = []"
    by (simp add: reader_onload_def initialState_def)
  have p: "processedResults [\<lparr>label = ''cod'', score = 0.6\<rparr>] =
     [\<lparr>label = ''cod'', score = 0.6, species = Some ''cod'', genus = Some ''cod'',
       commonName = Some ''cod''\<rparr>]"
    by (simp add: processedResults_take processItem_def isFishRelated_def toLowerCase_def
        toLowerChar_def extractGenus_eq extractSpecies_eq)
  have s: "js_split (CHR '' '') ''tiger shark'' = [''tiger'', ''shark'']"
    by simp
  from t c p s
    interpreter_total [of "''tiger shark''" "[\<lparr>label = ''cod'', score = 0.6\<rparr>]"
      "reader_onload (Some ''data:image/png;base64,iVBORw0KGgo='') initialState"]
    interpreter_total [of "''cod''" "[]" initialState]
  show ?thesis by (simp add: js_index_def)
qed

subsection \<open>The confidence tiers\<close>

text \<open>
  C7, as the claim states it, puts a score of exactly 0.4 into the medium tier. Both
  comparisons of the source are strict, so that score gets the red badge of the low tier.
\<close>

theorem badge_boundary_counterexample:
  "confidenceBadge \<lparr>label = ''cod'', score = 0.4, species = Some ''cod'', genus = Some ''cod'',
     commonName = Some ''cod''\<rparr> = tierClass Low \<and>
   confidenceBadge \<lparr>label = ''cod'', score = 0.4, species = Some ''cod'', genus = Some ''cod'',
     commonName = Some ''cod''\<rparr> \<noteq> tierClass Medium"
  by (simp add: confidenceBadge_def tierClass_def)

text \<open>
  C7, amended. The badge depends on the score alone: a score above 0.7 gets the badge of
  the high tier, a score above 0.4 and at most 0.7 that of the medium tier, and a score of
  at most 0.4 that of the low tier; the three badges differ, so the badge tells the tier.
\<close>

theorem confidence_tiers:
  "(score r > 0.7 \<longrightarrow> confidenceBadge r = tierClass High) \<and>
   (0.4 < score r \<and> score r \<le> 0.7 \<longrightarrow> confidenceBadge r = tierClass Medium) \<and>
   (score r \<le> 0.4 \<longrightarrow> confidenceBadge r = tierClass Low) \<and>
   (score r = score r' \<longrightarrow> confidenceBadge r = confidenceBadge r') \<and>
   (tierClass t = tierClass t' \<longrightarrow> t = t')"
proof -
  have inj: "tierClass t = tierClass t' \<longrightarrow> t = t'"
    by (cases t; cases t') (simp_all add: tierClass_def)
  then show ?thesis
    by (simp add: confidenceBadge_def tierClass_def)
qed

text \<open>
  Scores of 0.92, 0.7, 0.41, 0.4 and 0.05 give the high, medium, medium, low and low tier,
  and two records with the same score and different labels get the same badge.
\<close>

theorem confidence_tiers_witness:
  "confidenceBadge (processItem \<lparr>label = ''tiger shark'', score = 0.92\<rparr>) = tierClass High \<and>
   confidenceBadge (processItem \<lparr>label = ''umbrella'', score = 0.92\<rparr>) =
     confidenceBadge (processItem \<lparr>label = ''tiger shark'', score = 0.92\<rparr>) \<and>
   confidenceBadge (processItem \<lparr>label = ''cod'', score = 0.7\<rparr>) = tierClass Medium \<and>
   confidenceBadge (processItem \<lparr>label = ''cod'', score = 0.41\<rparr>) = tierClass Medium \<and>
   confidenceBadge (processItem \<lparr>label = ''cod'', score = 0.4\<rparr>) = tierClass Low \<and>
   confidenceBadge (processItem \<lparr>label = ''cod'', score = 0.05\<rparr>) = tierClass Low"
proof -
  have sc: "score (processItem \<lparr>label = l, score = x\<rparr>) = x" for l x
    by (simp add: score_processItem)
  from
    confidence_tiers [of "processItem \<lparr>label = ''tiger shark'', score = 0.92\<rparr>"
      "processItem \<lparr>label = ''umbrella'', score = 0.92\<rparr>" High High]
    confidence_tiers [of "processItem \<lparr>label = ''cod'', score = 0.7\<rparr>"
      "processItem \<lparr>label = ''cod'', score = 0.7\<rparr>" Medium Medium]
    confidence_tiers [of "processItem \<lparr>label = ''cod'', score = 0.41\<rparr>"
      "processItem \<lparr>label = ''cod'', score = 0.41\<rparr>" Medium Medium]
    confidence_tiers [of "processItem \<lparr>label = ''cod'', score = 0.4\<rparr>"
      "processItem \<lparr>label = ''cod'', score = 0.4\<rparr>" Low Low]
    confidence_tiers [of "processItem \<lparr>label = ''cod'', score = 0.05\<rparr>"
      "processItem \<lparr>label = ''cod'', score = 0.05\<rparr>" Low Low]
  show ?thesis by (simp add: sc confidenceBadge_def tierClass_def)
qed

subsection \<open>Files that are not images\<close>

text \<open>
  C8. A file whose type does not start with \<^verbatim>\<open>image/\<close> changes nothing but the list
  of notifications, which gets the validation message: the stored image and results are
  kept, no file is handed to a reader, no pipeline is created and the classifier is not
  called. This holds for a file that is selected and for a file that is dropped (which
  also ends the drag highlight).
\<close>

theorem invalid_file_rejected:
  assumes "\<not> startsWith (file_type file) ''image/''"
  shows "handleImageUpload file st =
       st\<lparr>toasts := toasts st @ [ToastError ''Please upload a valid image file'']\<rparr> \<and>
     image (handleImageUpload file st) = image st \<and>
     results (handleImageUpload file st) = results st \<and>
     reading (handleImageUpload file st) = reading st \<and>
     pipelineCalls (handleImageUpload file st) = pipelineCalls st \<and>
     classifierCalls (handleImageUpload file st) = classifierCalls st \<and>
     handleFileSelect (file # files) st = handleImageUpload file st \<and>
     handleDrop (file # files) st =
       st\<lparr>isDragOver := False,
          toasts := toasts st @ [ToastError ''Please upload a valid image file'']\<rparr>"
  using assms by (simp add: handleImageUpload_def handleFileSelect_def handleDrop_def js_index_def)

text \<open>
  A PDF file submitted after a successful identification leaves the image and the result
  in place; an image file is handed to the reader.
\<close>

theorem invalid_file_rejected_witness:
  "\<not> startsWith ''application/pdf'' ''image/'' \<and>
   image (handleImageUpload \<lparr>file_type = ''application/pdf''\<rparr>
     (identifyFish (Resolved [\<lparr>label = ''cod'', score = 0.6\<rparr>])
       (reader_onload (Some ''data:image/png;base64,iVBORw0KGgo='') initialState))) =
     Some ''data:image/png;base64,iVBORw0KGgo='' \<and>
   results (handleImageUpload \<lparr>file_type = ''application/pdf''\<rparr>
     (identifyFish (Resolved [\<lparr>label = ''cod'', score = 0.6\<rparr>])
       (reader_onload (Some ''data:image/png;base64,iVBORw0KGgo='') initialState))) =
     [\<lparr>label = ''cod'', score = 0.6, species = Some ''cod'', genus = Some ''cod'',
       commonName = Some ''cod''\<rparr>] \<and>
   toasts (handleImageUpload \<lparr>file_type = ''application/pdf''\<rparr>
     (identifyFish (Resolved [\<lparr>label = ''cod'', score = 0.6\<rparr>])
       (reader_onload (Some ''data:image/png;base64,iVBORw0KGgo='') initialState))) =
     [ToastError ''Please upload a valid image file''] \<and>
   classifierCalls (handleImageUpload \<lparr>file_type = ''application/pdf''\<rparr>
     (identifyFish (Resolved [\<lparr>label = ''cod'', score = 0.6\<rparr>])
       (reader_onload (Some ''data:image/png;base64,iVBORw0KGgo='') initialState))) = 1 \<and>
   reading (handleDrop [\<lparr>file_type = ''application/pdf''\<rparr>] initialState) = [] \<and>
   reading (handleDrop [\<lparr>file_type = ''image/png''\<rparr>] initialState) =
     [\<lparr>file_type = ''image/png''\<rparr>]"
proof -
  have h: "\<not> startsWith (file_type \<lparr>file_type = ''application/pdf''\<rparr>) ''image/''"
    by (simp add: startsWith_def)
  have p: "processedResults [\<lparr>label = ''cod'', score = 0.6\<rparr>] =
     [\<lparr>label = ''cod'', score = 0.6, species = Some ''cod'', genus = Some ''cod'',
       commonName = Some ''cod''\<rparr>]"
    by (simp add: processedResults_take processItem_def isFishRelated_def toLowerCase_def
        toLowerChar_def extractGenus_eq extractSpecies_eq)
  have n: "\<not> noFishDetected [\<lparr>label = ''cod'', score = 0.6, species = Some ''cod'',
       genus = Some ''cod'', commonName = Some ''cod''\<rparr>]"
    by (simp add: noFishDetected_def truthy_def)
  have ok: "reading (handleDrop [\<lparr>file_type = ''image/png''\<rparr>] initialState) =
     [\<lparr>file_type = ''image/png''\<rparr>]"
    by (simp add: handleDrop_def handleImageUpload_def js_index_def startsWith_def initialState_def)
  from h p n ok
    invalid_file_rejected [OF h, of
      "identifyFish (Resolved [\<lparr>label = ''cod'', score = 0.6\<rparr>])
        (reader_onload (Some ''data:image/png;base64,iVBORw0KGgo='') initialState)" "[]"]
    invalid_file_rejected [OF h, of initialState "[]"]
  show ?thesis
    by (simp add: identifyFish_def try_block_def reader_onload_def initialState_def truthy_def)
qed

subsection \<open>Failure of the classifier\<close>

text \<open>
  C10. A call of \<open>identifyFish\<close> with an image ends with the loading flag reset,
  whatever the classifier does; and when the creation of the pipeline or the call of the
  classifier is rejected, it shows the one error notification and leaves the stored
  results as they were. A call without an image returns at line 58 before the flag is
  raised and leaves the whole state as it was.
\<close>

theorem classifier_failure:
  "(truthy (image st) \<longrightarrow>
      isLoading (identifyFish oc st) = False \<and>
      (oc = PipelineRejected \<or> oc = ClassifierRejected \<longrightarrow>
         toasts (identifyFish oc st) =
           toasts st @ [ToastError ''Failed to identify fish. Please try again.''] \<and>
         results (identifyFish oc st) = results st)) \<and>
   (\<not> truthy (image st) \<longrightarrow> identifyFish oc st = st)"
  by (auto simp: identifyFish_def try_block_def catch_block_def)

theorem classifier_failure_witness:
  "truthy (image (identifyFish (Resolved [\<lparr>label = ''cod'', score = 0.6\<rparr>])
     (reader_onload (Some ''data:image/png;base64,iVBORw0KGgo='') initialState))) \<and>
   isLoading (identifyFish PipelineRejected
     (identifyFish (Resolved [\<lparr>label = ''cod'', score = 0.6\<rparr>])
       (reader_onload (Some ''data:image/png;base64,iVBORw0KGgo='') initialState))) = False \<and>
   toasts (identifyFish PipelineRejected
     (identifyFish (Resolved [\<lparr>label = ''cod'', score = 0.6\<rparr>])
       (reader_onload (Some ''data:image/png;base64,iVBORw0KGgo='') initialState))) =
     [ToastError ''Failed to identify fish. Please try again.''] \<and>
   results (identifyFish ClassifierRejected
     (identifyFish (Resolved [\<lparr>label = ''cod'', score = 0.6\<rparr>])
       (reader_onload (Some ''data:image/png;base64,iVBORw0KGgo='') initialState))) =
     [\<lparr>label = ''cod'', score = 0.6, species = Some ''cod'', genus = Some ''cod'',
       commonName = Some ''cod''\<rparr>] \<and>
   isLoading (identifyFish (Resolved [\<lparr>label = ''cod'', score = 0.6\<rparr>])
     (reader_onload (Some ''data:image/png;base64,iVBORw0KGgo='') initialState)) = False \<and>
   identifyFish PipelineRejected initialState = initialState"
proof -
  have p: "processedResults [\<lparr>label = ''cod'', score = 0.6\<rparr>] =
     [\<lparr>label = ''cod'', score = 0.6, species = Some ''cod'', genus = Some ''cod'',
       commonName = Some ''cod''\<rparr>]"
    by (simp add: processedResults_take processItem_def isFishRelated_def toLowerCase_def
        toLowerChar_def extractGenus_eq extractSpecies_eq)
  have n: "\<not> noFishDetected [\<lparr>label = ''cod'', score = 0.6, species = Some ''cod'',
       genus = Some ''cod'', commonName = Some ''cod''\<rparr>]"
    by (simp add: noFishDetected_def truthy_def)
  have t0: "truthy (image (reader_onload (Some ''data:image/png;base64,iVBORw0KGgo='') initialState))"
    by (simp add: truthy_def reader_onload_def initialState_def)
  have st: "identifyFish (Resolved [\<lparr>label = ''cod'', score = 0.6\<rparr>])
       (reader_onload (Some ''data:image/png;base64,iVBORw0KGgo='') initialState) =
     \<lparr> image = Some ''data:image/png;base64,iVBORw0KGgo='', isLoading = False,
       results = [\<lparr>label = ''cod'', score = 0.6, species = Some ''cod'', genus = Some ''cod'',
         commonName = Some ''cod''\<rparr>],
       isDragOver = False, toasts = [], consoleErrors = [], reading = [],
       pipelineCalls = 1, classifierCalls = 1 \<rparr>"
    using p n t0 by (simp add: identifyFish_def try_block_def reader_onload_def initialState_def)
  have t1: "truthy (image (identifyFish (Resolved [\<lparr>label = ''cod'', score = 0.6\<rparr>])
       (reader_onload (Some ''data:image/png;base64,iVBORw0KGgo='') initialState)))"
    unfolding st by (simp add: truthy_def)
  have r: "results (identifyFish (Resolved [\<lparr>label = ''cod'', score = 0.6\<rparr>])
       (reader_onload (Some ''data:image/png;base64,iVBORw0KGgo='') initialState)) =
     [\<lparr>label = ''cod'', score = 0.6, species = Some ''cod'', genus = Some ''cod'',
       commonName = Some ''cod''\<rparr>]"
    unfolding st by simp
  have tt: "toasts (identifyFish (Resolved [\<lparr>label = ''cod'', score = 0.6\<rparr>])
       (reader_onload (Some ''data:image/png;base64,iVBORw0KGgo='') initialState)) = []"
    unfolding st by simp
  have f: "\<not> truthy (image initialState)"
    by (simp add: truthy_def initialState_def)
  from t0 t1 f r tt
    classifier_failure [of
      "identifyFish (Resolved [\<lparr>label = ''cod'', score = 0.6\<rparr>])
        (reader_onload (Some ''data:image/png;base64,iVBORw0KGgo='') initialState)"
      PipelineRejected]
    classifier_failure [of
      "identifyFish (Resolved [\<lparr>label = ''cod'', score = 0.6\<rparr>])
        (reader_onload (Some ''data:image/png;base64,iVBORw0KGgo='') initialState)"
      ClassifierRejected]
    classifier_failure [of
      "reader_onload (Some ''data:image/png;base64,iVBORw0KGgo='') initialState"
      "Resolved [\<lparr>label = ''cod'', score = 0.6\<rparr>]"]
    classifier_failure [of initialState PipelineRejected]
  show ?thesis by simp
qed

end
